theory Spec2Isabelle
  imports Main
begin

section \<open>Data of the authentication context\<close>

text \<open>
  The identity and session objects of the hosted auth service, as far as
  \<^verbatim>\<open>AuthContext.tsx\<close> reads them: \<^verbatim>\<open>session.user\<close>, \<^verbatim>\<open>user.id\<close>,
  \<^verbatim>\<open>user.email\<close> (optional) and the two keys of \<^verbatim>\<open>user.user_metadata\<close>.
\<close>

record UserMetadata =
  meta_full_name :: "string option"
  meta_avatar_url :: "string option"

record User =
  user_id :: string
  user_email :: "string option"
  user_metadata :: UserMetadata

record Session =
  access_token :: string
  session_user :: User

text \<open>
  Modelled from the spec: the type \<^verbatim>\<open>UserProfile\<close> is declared in
  \<^verbatim>\<open>lib/supabase\<close>, which is not among the sources. Its attributes are those of
  the data model (email, full name, avatar URL, subscription status, keyed by the user
  identifier), which are also the keys of the row literal that
  \<^verbatim>\<open>createUserProfile\<close> inserts.
\<close>

record UserProfile =
  profile_id :: string
  email :: string
  full_name :: "string option"
  avatar_url :: "string option"
  subscription_status :: string

datatype AuthError = AuthError (message: string)

datatype PostgrestError = PostgrestError (code: string) (details: string)

text \<open>A value that a \<^verbatim>\<open>throw\<close> or a rejected promise carries.\<close>

datatype thrown =
    Thrown_AuthError AuthError
  | Thrown_Error string
  | Thrown_Other

text \<open>\<^verbatim>\<open>error instanceof Error ? error.message : 'Unknown error'\<close>\<close>

fun message_or_unknown :: "thrown \<Rightarrow> string" where
  "message_or_unknown (Thrown_AuthError e) = message e"
| "message_or_unknown (Thrown_Error m) = m"
| "message_or_unknown Thrown_Other = ''Unknown error''"

text \<open>
  The answers of the hosted service. A call either resolves to a
  \<^verbatim>\<open>{ data, error }\<close> pair or rejects; the client object \<^verbatim>\<open>supabase\<close> is
  imported from \<^verbatim>\<open>lib/supabase\<close> and is a parameter of every operation here: it
  fixes what each request of one operation is answered with.
\<close>

datatype 'a awaited = Resolved 'a | Rejected thrown

record ('d, 'e) response =
  data :: 'd
  error :: "'e option"

record supabase =
  auth_getSession :: "(Session option, AuthError) response awaited"
  auth_signOut :: "(unit, AuthError) response awaited"
  auth_signInWithOAuth :: "(unit, AuthError) response awaited"
  select_single :: "string \<Rightarrow> (UserProfile option, PostgrestError) response awaited"
  insert_single :: "UserProfile \<Rightarrow> (UserProfile option, PostgrestError) response awaited"

text \<open>Everything an operation does that is visible outside it, in order.\<close>

datatype effect =
    ConsoleLog string
  | ConsoleError string
  | SetUser "User option"
  | SetUserProfile "UserProfile option"
  | SetSession "Session option"
  | SetLoading bool
  | SetIsInitialized bool
  | SetSessionError "string option"
  | GetSession
  | SignOutRequest
  | SignInWithOAuth string string
  | SelectProfile string
  | InsertProfile UserProfile
  | SetItem string string
  | RemoveItem string
  | SetTimeout string nat

text \<open>
  The six \<^verbatim>\<open>useState\<close> cells of \<^verbatim>\<open>AuthProvider\<close>. A value of this record is also
  what a closure created by one render sees: the functions of the component read
  \<^verbatim>\<open>user\<close>, \<^verbatim>\<open>loading\<close> and \<^verbatim>\<open>isInitialized\<close> from the render that created
  them, and write through the setters.
\<close>

record auth_state =
  user :: "User option"
  userProfile :: "UserProfile option"
  session :: "Session option"
  loading :: bool
  isInitialized :: bool
  sessionError :: "string option"

record world = auth_state +
  window_defined :: bool
  pathname :: string
  origin :: string
  localStorage :: "string \<rightharpoonup> string"
  trace :: "effect list"

definition render :: "world \<Rightarrow> auth_state" where
  "render w = \<lparr>user = user w, userProfile = userProfile w, session = session w,
     loading = loading w, isInitialized = isInitialized w, sessionError = sessionError w\<rparr>"

text \<open>The \<^verbatim>\<open>useState\<close> initial values, in a browser with empty storage.\<close>

definition initial_world :: world where
  "initial_world = \<lparr>user = None, userProfile = None, session = None, loading = True,
     isInitialized = False, sessionError = None, window_defined = True,
     pathname = ''/'', origin = ''https://app.example'', localStorage = Map.empty,
     trace = []\<rparr>"

section \<open>Statements: state, exceptions, try/catch/finally\<close>

type_synonym comp = "world \<Rightarrow> world \<times> thrown option"

definition skip :: comp where
  "skip w = (w, None)"

definition throw :: "thrown \<Rightarrow> comp" where
  "throw e w = (w, Some e)"

definition sync :: "(world \<Rightarrow> world) \<Rightarrow> comp" where
  "sync f w = (f w, None)"

fun block :: "comp list \<Rightarrow> comp" where
  "block [] w = (w, None)"
| "block (c # cs) w = (case c w of (w', None) \<Rightarrow> block cs w' | (w', Some e) \<Rightarrow> (w', Some e))"

definition try_catch :: "comp \<Rightarrow> (thrown \<Rightarrow> comp) \<Rightarrow> comp" where
  "try_catch body handler w =
     (case body w of (w', None) \<Rightarrow> (w', None) | (w', Some e) \<Rightarrow> handler e w')"

definition try_finally :: "comp \<Rightarrow> comp \<Rightarrow> comp" where
  "try_finally body fin w =
     (case body w of (w', r) \<Rightarrow>
        (case fin w' of (w'', None) \<Rightarrow> (w'', r) | (w'', Some e) \<Rightarrow> (w'', Some e)))"

definition tell :: "effect \<Rightarrow> world \<Rightarrow> world" where
  "tell x w = w\<lparr>trace := trace w @ [x]\<rparr>"

definition console_log :: "string \<Rightarrow> comp" where
  "console_log s = sync (tell (ConsoleLog s))"

definition console_error :: "string \<Rightarrow> comp" where
  "console_error s = sync (tell (ConsoleError s))"

text \<open>\<^verbatim>\<open>await\<close> of a request to the service: the request is issued, then its answer
  is bound or its rejection thrown.\<close>

definition request :: "effect \<Rightarrow> 'a awaited \<Rightarrow> ('a \<Rightarrow> comp) \<Rightarrow> comp" where
  "request req a k w =
     (case a of Resolved v \<Rightarrow> k v (tell req w) | Rejected e \<Rightarrow> (tell req w, Some e))"

subsection \<open>The setters\<close>

definition setUser :: "User option \<Rightarrow> world \<Rightarrow> world" where
  "setUser v w = tell (SetUser v) (w\<lparr>user := v\<rparr>)"

definition setUserProfile :: "UserProfile option \<Rightarrow> world \<Rightarrow> world" where
  "setUserProfile v w = tell (SetUserProfile v) (w\<lparr>userProfile := v\<rparr>)"

definition setSession :: "Session option \<Rightarrow> world \<Rightarrow> world" where
  "setSession v w = tell (SetSession v) (w\<lparr>session := v\<rparr>)"

definition setLoading :: "bool \<Rightarrow> world \<Rightarrow> world" where
  "setLoading v w = tell (SetLoading v) (w\<lparr>loading := v\<rparr>)"

definition setIsInitialized :: "bool \<Rightarrow> world \<Rightarrow> world" where
  "setIsInitialized v w = tell (SetIsInitialized v) (w\<lparr>isInitialized := v\<rparr>)"

definition setSessionError :: "string option \<Rightarrow> world \<Rightarrow> world" where
  "setSessionError v w = tell (SetSessionError v) (w\<lparr>sessionError := v\<rparr>)"

section \<open>Location memory\<close>

definition storeUserLocation :: "string \<Rightarrow> world \<Rightarrow> world" where
  "storeUserLocation path w =
     (if window_defined w
      then tell (SetItem ''lastUserLocation'' path)
             (w\<lparr>localStorage := (localStorage w)(''lastUserLocation'' \<mapsto> path)\<rparr>)
      else w)"

definition getStoredLocation :: "world \<Rightarrow> string option" where
  "getStoredLocation w =
     (if window_defined w then localStorage w ''lastUserLocation'' else None)"

definition clearStoredLocation :: "world \<Rightarrow> world" where
  "clearStoredLocation w =
     (if window_defined w
      then tell (RemoveItem ''lastUserLocation'')
             (w\<lparr>localStorage := (localStorage w)(''lastUserLocation'' := None)\<rparr>)
      else w)"

text \<open>\<^verbatim>\<open>window.location.pathname\<close>, read without a guard: a ReferenceError where
  there is no window.\<close>

definition with_pathname :: "(string \<Rightarrow> comp) \<Rightarrow> comp" where
  "with_pathname k w =
     (if window_defined w then k (pathname w) w
      else (w, Some (Thrown_Error ''window is not defined'')))"

text \<open>A statement that first reads something from the world as it is then, such as
  \<^verbatim>\<open>const lastLocation = getStoredLocation()\<close>.\<close>

definition read :: "(world \<Rightarrow> 'a) \<Rightarrow> ('a \<Rightarrow> comp) \<Rightarrow> comp" where
  "read g k w = k (g w) w"

section \<open>Profile resolver\<close>

text \<open>\<^verbatim>\<open>x || null\<close> on an optional string: the empty string is falsy.\<close>

definition or_null :: "string option \<Rightarrow> string option" where
  "or_null x = (case x of None \<Rightarrow> None | Some s \<Rightarrow> if s = [] then None else Some s)"

text \<open>The row literal of \<^verbatim>\<open>createUserProfile\<close>; \<open>r\<close> is the render whose
  \<^verbatim>\<open>user\<close> the function closes over.\<close>

definition new_profile_row :: "auth_state \<Rightarrow> string \<Rightarrow> UserProfile" where
  "new_profile_row r userId =
     \<lparr>profile_id = userId,
      email = (case user r of None \<Rightarrow> []
               | Some u \<Rightarrow> (case user_email u of None \<Rightarrow> [] | Some e \<Rightarrow> e)),
      full_name = (case user r of None \<Rightarrow> None
               | Some u \<Rightarrow> or_null (meta_full_name (user_metadata u))),
      avatar_url = (case user r of None \<Rightarrow> None
               | Some u \<Rightarrow> or_null (meta_avatar_url (user_metadata u))),
      subscription_status = ''free''\<rparr>"

definition createUserProfile :: "auth_state \<Rightarrow> supabase \<Rightarrow> string \<Rightarrow> comp" where
  "createUserProfile r sb userId =
     try_catch
       (request (InsertProfile (new_profile_row r userId))
          (insert_single sb (new_profile_row r userId))
          (\<lambda>res. case error res of
                   Some e \<Rightarrow> console_error ''Error creating user profile:''
                 | None \<Rightarrow> sync (setUserProfile (data res))))
       (\<lambda>e. console_error ''Error in createUserProfile:'')"

definition fetchUserProfile :: "auth_state \<Rightarrow> supabase \<Rightarrow> string \<Rightarrow> comp" where
  "fetchUserProfile r sb userId =
     try_catch
       (request (SelectProfile userId) (select_single sb userId)
          (\<lambda>res. if (case error res of None \<Rightarrow> False | Some e \<Rightarrow> code e \<noteq> ''PGRST116'')
                 then console_error ''Error fetching user profile:''
                 else (case data res of
                         Some row \<Rightarrow> sync (setUserProfile (Some row))
                       | None \<Rightarrow> createUserProfile r sb userId)))
       (\<lambda>e. console_error ''Error in fetchUserProfile:'')"

section \<open>Bootstrap and the auth-event listener\<close>

definition getInitialSession :: "auth_state \<Rightarrow> supabase \<Rightarrow> comp" where
  "getInitialSession r sb =
     try_finally
       (try_catch
          (block
             [sync (setLoading True),
              sync (setSessionError None),
              console_log ''Initializing session...'',
              request GetSession (auth_getSession sb)
                (\<lambda>res. case error res of
                   Some e \<Rightarrow>
                     block [console_error ''Error getting session:'',
                            sync (setSessionError (Some (message e)))]
                 | None \<Rightarrow>
                     block [console_log ''Session retrieved:'',
                            sync (setSession (data res)),
                            sync (setUser (map_option session_user (data res))),
                            (case data res of
                               Some s \<Rightarrow> fetchUserProfile r sb (user_id (session_user s))
                             | None \<Rightarrow> skip)])])
          (\<lambda>e. block [console_error ''Error in getInitialSession:'',
                      sync (setSessionError (Some (message_or_unknown e)))]))
       (block [sync (setLoading False),
               sync (setIsInitialized True),
               console_log ''Session initialization complete''])"

text \<open>The callback given to \<^verbatim>\<open>supabase.auth.onAuthStateChange\<close>. The event kind is
  the string the service delivers.\<close>

definition onAuthStateChange :: "auth_state \<Rightarrow> supabase \<Rightarrow> string \<Rightarrow> Session option \<Rightarrow> comp" where
  "onAuthStateChange r sb event sess =
     block
       [console_log ''Auth state change:'',
        sync (setSession sess),
        sync (setUser (map_option session_user sess)),
        (case sess of
           Some s \<Rightarrow> fetchUserProfile r sb (user_id (session_user s))
         | None \<Rightarrow> sync (setUserProfile None)),
        (if event = ''SIGNED_IN''
         then read getStoredLocation
                (\<lambda>stored. case stored of
                     None \<Rightarrow> skip
                   | Some lastLocation \<Rightarrow>
                       if lastLocation \<noteq> [] \<and> lastLocation \<noteq> ''/auth/callback''
                          \<and> lastLocation \<noteq> ''/''
                       then sync (tell (SetTimeout lastLocation 100))
                       else skip)
         else skip),
        (if event = ''SIGNED_OUT'' then sync clearStoredLocation else skip),
        (if \<not> loading r then sync (setLoading False) else skip)]"

text \<open>The second effect of the component (``track user navigation for session
  restoration''), run for the render \<open>r\<close>.\<close>

definition track_navigation :: "auth_state \<Rightarrow> comp" where
  "track_navigation r =
     (if user r \<noteq> None \<and> isInitialized r
      then with_pathname (\<lambda>currentPath.
             if currentPath \<noteq> ''/auth/callback''
             then sync (storeUserLocation currentPath) else skip)
      else skip)"

section \<open>Auth actions\<close>

definition signInWithGoogle :: "supabase \<Rightarrow> comp" where
  "signInWithGoogle sb =
     try_catch
       (block
          [with_pathname (\<lambda>currentPath.
             if currentPath \<noteq> ''/auth/callback''
             then sync (storeUserLocation currentPath) else skip),
           read origin (\<lambda>window_origin.
             request (SignInWithOAuth ''google'' (window_origin @ ''/auth/callback''))
               (auth_signInWithOAuth sb)
               (\<lambda>res. case error res of
                  Some e \<Rightarrow> block [console_error ''Error signing in with Google:'',
                                   throw (Thrown_AuthError e)]
                | None \<Rightarrow> skip))])
       (\<lambda>e. block [console_error ''Error in signInWithGoogle:'', throw e])"

definition signOut :: "supabase \<Rightarrow> comp" where
  "signOut sb =
     try_finally
       (try_catch
          (block
             [sync (setLoading True),
              request SignOutRequest (auth_signOut sb)
                (\<lambda>res. case error res of
                   Some e \<Rightarrow> block [console_error ''Error signing out:'',
                                    throw (Thrown_AuthError e)]
                 | None \<Rightarrow> skip)])
          (\<lambda>e. block [console_error ''Error in signOut:'', throw e]))
       (block [sync (setLoading False), sync clearStoredLocation])"

definition restoreSession :: "auth_state \<Rightarrow> supabase \<Rightarrow> comp" where
  "restoreSession r sb =
     try_finally
       (try_catch
          (block
             [sync (setLoading True),
              request GetSession (auth_getSession sb)
                (\<lambda>res. case error res of
                   Some e \<Rightarrow> console_error ''Error restoring session:''
                 | None \<Rightarrow>
                     (case data res of
                        Some s \<Rightarrow>
                          block [sync (setSession (Some s)),
                                 sync (setUser (Some (session_user s))),
                                 fetchUserProfile r sb (user_id (session_user s))]
                      | None \<Rightarrow> skip))])
          (\<lambda>e. console_error ''Error in restoreSession:''))
       (sync (setLoading False))"

section \<open>The consumer hook\<close>

text \<open>\<^verbatim>\<open>useContext\<close>: the value of the nearest enclosing provider (innermost first),
  or the default given to \<^verbatim>\<open>createContext\<close>.\<close>

fun useContext :: "'a \<Rightarrow> 'a list \<Rightarrow> 'a" where
  "useContext dflt [] = dflt"
| "useContext dflt (v # vs) = v"

text \<open>\<^verbatim>\<open>createContext<AuthContextType | undefined>(undefined)\<close>\<close>

definition AuthContext :: "auth_state option" where
  "AuthContext = None"

text \<open>The \<^verbatim>\<open>value\<close> that \<^verbatim>\<open>AuthProvider\<close> hands to its provider in the render
  \<open>r\<close>: the five state fields (the three actions are the functions above).\<close>

definition AuthProvider_value :: "auth_state \<Rightarrow> auth_state option" where
  "AuthProvider_value r = Some r"

definition useAuth :: "auth_state option list \<Rightarrow> thrown + auth_state" where
  "useAuth providers =
     (case useContext AuthContext providers of
        None \<Rightarrow> Inl (Thrown_Error ''useAuth must be used within an AuthProvider'')
      | Some context \<Rightarrow> Inr context)"

section \<open>One controller lifetime\<close>

text \<open>
  What can happen to a mounted controller besides its bootstrap: an auth event is
  delivered, an action is called from the current render, or the navigation effect
  runs. The listener is created by the mount effect, so it sees the first render.
\<close>

datatype action =
    AuthEvent string "Session option"
  | SignInWithGoogle
  | SignOut
  | RestoreSession
  | TrackNavigation

fun step :: "supabase \<times> action \<Rightarrow> world \<Rightarrow> world" where
  "step (sb, AuthEvent event sess) w = fst (onAuthStateChange (render initial_world) sb event sess w)"
| "step (sb, SignInWithGoogle) w = fst (signInWithGoogle sb w)"
| "step (sb, SignOut) w = fst (signOut sb w)"
| "step (sb, RestoreSession) w = fst (restoreSession (render w) sb w)"
| "step (sb, TrackNavigation) w = fst (track_navigation (render w) w)"

definition run :: "(supabase \<times> action) list \<Rightarrow> world \<Rightarrow> world" where
  "run acts w = fold step acts w"

definition bootstrap :: "supabase \<Rightarrow> world \<Rightarrow> world" where
  "bootstrap sb w = fst (getInitialSession (render initial_world) sb w)"

definition lifetime :: "(supabase \<times> action) list \<Rightarrow> supabase \<Rightarrow> (supabase \<times> action) list \<Rightarrow> world" where
  "lifetime before sb after = run after (bootstrap sb (run before initial_world))"

section \<open>Reading a trace\<close>

text \<open>The rows of the insert requests in a trace, and the values written to
  \<^verbatim>\<open>isInitialized\<close>, in order.\<close>

fun inserts :: "effect list \<Rightarrow> UserProfile list" where
  "inserts [] = []"
| "inserts (InsertProfile row # xs) = row # inserts xs"
| "inserts (x # xs) = inserts xs"

fun initialized_writes :: "effect list \<Rightarrow> bool list" where
  "initialized_writes [] = []"
| "initialized_writes (SetIsInitialized b # xs) = b # initialized_writes xs"
| "initialized_writes (x # xs) = initialized_writes xs"

section \<open>Example inputs\<close>

definition alice :: User where
  "alice = \<lparr>user_id = ''u1'', user_email = Some ''alice@example.com'',
     user_metadata = \<lparr>meta_full_name = Some ''Alice'', meta_avatar_url = None\<rparr>\<rparr>"

definition alice_session :: Session where
  "alice_session = \<lparr>access_token = ''t1'', session_user = alice\<rparr>"

definition alice_profile :: UserProfile where
  "alice_profile = \<lparr>profile_id = ''u1'', email = ''alice@example.com'',
     full_name = Some ''Alice'', avatar_url = None, subscription_status = ''pro''\<rparr>"

text \<open>A service that cannot be reached: every request rejects.\<close>

definition offline :: supabase where
  "offline = \<lparr>auth_getSession = Rejected (Thrown_Error ''Failed to fetch''),
     auth_signOut = Rejected (Thrown_Error ''Failed to fetch''),
     auth_signInWithOAuth = Rejected (Thrown_Error ''Failed to fetch''),
     select_single = (\<lambda>userId. Rejected (Thrown_Error ''Failed to fetch'')),
     insert_single = (\<lambda>row. Rejected (Thrown_Error ''Failed to fetch''))\<rparr>"

text \<open>A reachable service with nobody signed in and an empty profile table; an insert
  answers with the row it was given.\<close>

definition signed_out :: supabase where
  "signed_out = \<lparr>auth_getSession = Resolved \<lparr>data = None, error = None\<rparr>,
     auth_signOut = Resolved \<lparr>data = (), error = None\<rparr>,
     auth_signInWithOAuth = Resolved \<lparr>data = (), error = None\<rparr>,
     select_single = (\<lambda>userId. Resolved \<lparr>data = None,
        error = Some (PostgrestError ''PGRST116'' ''0 rows'')\<rparr>),
     insert_single = (\<lambda>row. Resolved \<lparr>data = Some row, error = None\<rparr>)\<rparr>"

text \<open>Alice is signed in; she has no profile row yet, or has one, or the table cannot
  be read.\<close>

definition first_visit :: supabase where
  "first_visit = signed_out\<lparr>auth_getSession := Resolved \<lparr>data = Some alice_session, error = None\<rparr>\<rparr>"

definition returning_visit :: supabase where
  "returning_visit = first_visit\<lparr>select_single :=
     (\<lambda>userId. Resolved \<lparr>data = Some alice_profile, error = None\<rparr>)\<rparr>"

text \<open>Bob, another user, is the one signed in, and has no profile row yet.\<close>

definition bob :: User where
  "bob = \<lparr>user_id = ''u2'', user_email = Some ''bob@example.com'',
     user_metadata = \<lparr>meta_full_name = Some ''Bob'', meta_avatar_url = None\<rparr>\<rparr>"

definition bob_session :: Session where
  "bob_session = \<lparr>access_token = ''t2'', session_user = bob\<rparr>"

definition bob_first_visit :: supabase where
  "bob_first_visit = signed_out\<lparr>auth_getSession := Resolved \<lparr>data = Some bob_session, error = None\<rparr>\<rparr>"

definition table_denied :: supabase where
  "table_denied = first_visit\<lparr>select_single :=
     (\<lambda>userId. Resolved \<lparr>data = None,
        error = Some (PostgrestError ''42501'' ''permission denied'')\<rparr>)\<rparr>"

text \<open>The controller with Alice signed in, on the dashboard, with the dashboard
  remembered.\<close>

definition dashboard_world :: world where
  "dashboard_world = initial_world\<lparr>user := Some alice, session := Some alice_session,
     userProfile := Some alice_profile, loading := False, isInitialized := True,
     pathname := ''/dashboard'',
     localStorage := [''lastUserLocation'' \<mapsto> ''/dashboard'']\<rparr>"

section \<open>Observations that a statement leaves unchanged\<close>

text \<open>A statement preserves an observation \<open>f\<close> of the world when running it, to
  completion or to a throw, never changes what \<open>f\<close> reads.\<close>

definition preserves :: "(world \<Rightarrow> 'a) \<Rightarrow> comp \<Rightarrow> bool" where
  "preserves f c = (\<forall>w. f (fst (c w)) = f w)"

text \<open>The \<^verbatim>\<open>isInitialized\<close> flag together with the history of its writes.\<close>

definition initialized_view :: "world \<Rightarrow> bool \<times> bool list" where
  "initialized_view w = (isInitialized w, initialized_writes (trace w))"

section \<open>Facts about statements and traces\<close>

lemmas stmt_defs = skip_def throw_def sync_def try_catch_def try_finally_def
  console_log_def console_error_def request_def with_pathname_def read_def
lemmas setter_defs = tell_def setUser_def setUserProfile_def setSession_def setLoading_def
  setIsInitialized_def setSessionError_def
lemmas example_defs = alice_def alice_session_def alice_profile_def offline_def signed_out_def
  first_visit_def returning_visit_def table_denied_def dashboard_world_def initial_world_def
  render_def bob_def bob_session_def bob_first_visit_def

lemma inserts_append: "inserts (xs @ ys) = inserts xs @ inserts ys"
  by (induction xs rule: inserts.induct) simp_all

lemma initialized_writes_append:
  "initialized_writes (xs @ ys) = initialized_writes xs @ initialized_writes ys"
  by (induction xs rule: initialized_writes.induct) simp_all


lemma initial_world_fields:
  "user initial_world = None" "userProfile initial_world = None" "session initial_world = None"
  "loading initial_world = True" "isInitialized initial_world = False"
  "sessionError initial_world = None" "window_defined initial_world = True"
  "trace initial_world = []"
  by (simp_all add: initial_world_def)

lemma try_catch_no_throw: "snd (body w) = None \<Longrightarrow> try_catch body handler w = body w"
  by (cases "body w") (simp add: try_catch_def)

lemma try_catch_snd:
  "(\<And>e w'. snd (handler e w') = None) \<Longrightarrow> snd (try_catch body handler w) = None"
  by (simp add: try_catch_def split: prod.splits option.splits)


lemma try_finally_fst: "fst (try_finally body fin w) = fst (fin (fst (body w)))"
  by (simp add: try_finally_def split: prod.splits option.splits)

subsection \<open>Composing what statements preserve\<close>

lemma preservesD: "preserves f c \<Longrightarrow> f (fst (c w)) = f w"
  by (simp add: preserves_def)

lemma preserves_skip: "preserves f skip"
  by (simp add: preserves_def skip_def)

lemma preserves_throw: "preserves f (throw e)"
  by (simp add: preserves_def throw_def)

lemma preserves_sync: "(\<And>w. f (g w) = f w) \<Longrightarrow> preserves f (sync g)"
  by (simp add: preserves_def sync_def)

lemma preserves_console_log: "(\<And>w. f (tell (ConsoleLog s) w) = f w) \<Longrightarrow> preserves f (console_log s)"
  by (simp add: console_log_def preserves_sync)

lemma preserves_console_error:
  "(\<And>w. f (tell (ConsoleError s) w) = f w) \<Longrightarrow> preserves f (console_error s)"
  by (simp add: console_error_def preserves_sync)

lemma preserves_block: "list_all (preserves f) cs \<Longrightarrow> preserves f (block cs)"
proof (induction cs)
  case Nil
  show ?case by (simp add: preserves_def)
next
  case (Cons c cs)
  then have c: "preserves f c" and cs: "preserves f (block cs)" by simp_all
  show ?case
    unfolding preserves_def
  proof
    fix w
    obtain w1 x where r: "c w = (w1, x)" by (cases "c w")
    have "f w1 = f w" using preservesD [OF c, of w] r by simp
    then show "f (fst (block (c # cs) w)) = f w"
      using preservesD [OF cs, of w1] r by (cases x) simp_all
  qed
qed

lemma preserves_try_catch:
  assumes "preserves f body" and "\<And>e. preserves f (handler e)"
  shows "preserves f (try_catch body handler)"
  unfolding preserves_def
proof
  fix w
  obtain w1 x where r: "body w = (w1, x)" by (cases "body w")
  have "f w1 = f w" using preservesD [OF assms(1), of w] r by simp
  then show "f (fst (try_catch body handler w)) = f w"
    using r preservesD [OF assms(2), of _ w1] by (cases x) (simp_all add: try_catch_def)
qed

lemma preserves_try_finally:
  assumes "preserves f body" and "preserves f fin"
  shows "preserves f (try_finally body fin)"
  unfolding preserves_def
  using preservesD [OF assms(1)] preservesD [OF assms(2)]
  by (simp add: try_finally_fst)

lemma preserves_request:
  assumes "\<And>w. f (tell req w) = f w" and "\<And>v. preserves f (k v)"
  shows "preserves f (request req a k)"
  unfolding preserves_def
  using assms(1) preservesD [OF assms(2)]
  by (cases a) (simp_all add: request_def)

lemma preserves_with_pathname:
  assumes "\<And>p. preserves f (k p)"
  shows "preserves f (with_pathname k)"
  unfolding preserves_def
  using preservesD [OF assms]
  by (simp add: with_pathname_def)

lemma preserves_read:
  assumes "\<And>x. preserves f (k x)"
  shows "preserves f (read g k)"
  unfolding preserves_def
  using preservesD [OF assms]
  by (simp add: read_def)

lemmas preserves_intros = preserves_skip preserves_throw preserves_sync preserves_console_log
  preserves_console_error preserves_block preserves_try_catch preserves_try_finally
  preserves_request preserves_with_pathname preserves_read

section \<open>The initialized flag over a lifetime\<close>

lemma initialized_view_tell:
  "initialized_writes [x] = [] \<Longrightarrow> initialized_view (tell x w) = initialized_view w"
  by (simp add: initialized_view_def tell_def initialized_writes_append)

lemmas initialized_view_simps = initialized_view_tell setUser_def setUserProfile_def
  setSession_def setLoading_def setSessionError_def storeUserLocation_def
  clearStoredLocation_def

lemma initialized_view_update [simp]:
  "initialized_view (w\<lparr>user := a\<rparr>) = initialized_view w"
  "initialized_view (w\<lparr>userProfile := b\<rparr>) = initialized_view w"
  "initialized_view (w\<lparr>session := c\<rparr>) = initialized_view w"
  "initialized_view (w\<lparr>loading := d\<rparr>) = initialized_view w"
  "initialized_view (w\<lparr>sessionError := e\<rparr>) = initialized_view w"
  "initialized_view (w\<lparr>localStorage := m\<rparr>) = initialized_view w"
  by (simp_all add: initialized_view_def)

lemma createUserProfile_initialized:
  "preserves initialized_view (createUserProfile r sb userId)"
  unfolding createUserProfile_def
  by (auto intro!: preserves_intros simp add: initialized_view_simps split: option.splits)

lemma fetchUserProfile_initialized:
  "preserves initialized_view (fetchUserProfile r sb userId)"
  unfolding fetchUserProfile_def
  by (auto intro!: preserves_intros createUserProfile_initialized
      simp add: initialized_view_simps split: option.splits)

lemma onAuthStateChange_initialized:
  "preserves initialized_view (onAuthStateChange r sb event sess)"
  unfolding onAuthStateChange_def
  by (auto intro!: preserves_intros fetchUserProfile_initialized
      simp add: initialized_view_simps split: option.splits)

lemma signInWithGoogle_initialized: "preserves initialized_view (signInWithGoogle sb)"
  unfolding signInWithGoogle_def
  by (auto intro!: preserves_intros simp add: initialized_view_simps split: option.splits)

lemma signOut_initialized: "preserves initialized_view (signOut sb)"
  unfolding signOut_def
  by (auto intro!: preserves_intros simp add: initialized_view_simps split: option.splits)

lemma restoreSession_initialized: "preserves initialized_view (restoreSession r sb)"
  unfolding restoreSession_def
  by (auto intro!: preserves_intros fetchUserProfile_initialized
      simp add: initialized_view_simps split: option.splits)

lemma track_navigation_initialized: "preserves initialized_view (track_navigation r)"
  unfolding track_navigation_def
  by (auto intro!: preserves_intros simp add: initialized_view_simps)

lemma step_initialized: "initialized_view (step a w) = initialized_view w"
proof (cases a)
  case (Pair sb act)
  then show ?thesis
    by (cases act)
       (simp_all add: preservesD onAuthStateChange_initialized signInWithGoogle_initialized
          signOut_initialized restoreSession_initialized track_navigation_initialized)
qed

lemma run_initialized: "initialized_view (run acts w) = initialized_view w"
  unfolding run_def
  by (induction acts arbitrary: w) (simp_all add: step_initialized)

lemma initialized_after_finally:
  assumes "preserves initialized_view body"
  shows "initialized_view
           (fst (try_finally body
              (block [sync (setLoading False), sync (setIsInitialized True),
                      console_log ''Session initialization complete'']) w)) =
         (True, initialized_writes (trace w) @ [True])"
  using preservesD [OF assms, of w]
  by (simp add: try_finally_fst initialized_view_def sync_def console_log_def setter_defs
      initialized_writes_append)

lemma getInitialSession_initialized:
  "initialized_view (fst (getInitialSession r sb w)) =
     (True, initialized_writes (trace w) @ [True])"
  unfolding getInitialSession_def
  by (rule initialized_after_finally)
     (auto intro!: preserves_intros fetchUserProfile_initialized
        simp add: initialized_view_simps split: option.splits)

text \<open>
  Claim C1. In every lifetime of a mounted controller (any actions and events before the
  bootstrap completes, the bootstrap with any answer of the service, any actions and
  events after it) the flag is false at mount and until the bootstrap completes, true
  when it completes and true at the end; the only write to the flag in the whole
  lifetime is the one write of true.
\<close>

theorem isInitialized_set_once:
  "isInitialized initial_world = False
   \<and> isInitialized (run before initial_world) = False
   \<and> isInitialized (bootstrap sb (run before initial_world)) = True
   \<and> isInitialized (lifetime before sb after) = True
   \<and> initialized_writes (trace (run before initial_world)) = []
   \<and> initialized_writes (trace (lifetime before sb after)) = [True]"
proof -
  have a: "initialized_view (run before initial_world) = (False, [])"
    by (simp add: run_initialized) (simp add: initialized_view_def initial_world_fields)
  have a': "initialized_writes (trace (run before initial_world)) = []"
    using a by (simp add: initialized_view_def)
  have b: "initialized_view (bootstrap sb (run before initial_world)) = (True, [True])"
    by (simp add: bootstrap_def getInitialSession_initialized a')
  have c: "initialized_view (lifetime before sb after) = (True, [True])"
    using b by (simp add: lifetime_def run_initialized)
  from a b c show ?thesis
    by (simp add: initialized_view_def initial_world_fields)
qed

section \<open>The consumer hook outside a provider\<close>

text \<open>
  Claim C10. Called where no \<^verbatim>\<open>AuthProvider\<close> encloses the caller (the context value is
  the default, undefined), \<^verbatim>\<open>useAuth\<close> throws its error and returns nothing; the same
  holds when the nearest provider hands down undefined. Inside an \<^verbatim>\<open>AuthProvider\<close> it
  returns the value of the nearest one.
\<close>

theorem useAuth_requires_provider:
  "useAuth [] = Inl (Thrown_Error ''useAuth must be used within an AuthProvider'')
   \<and> useAuth (None # providers) = Inl (Thrown_Error ''useAuth must be used within an AuthProvider'')
   \<and> useAuth (AuthProvider_value r # providers) = Inr r"
  by (simp add: useAuth_def AuthContext_def AuthProvider_value_def)

section \<open>Location memory: store, then get\<close>

text \<open>
  Claim C3, as stated, at the callback path: with \<^verbatim>\<open>/dashboard\<close> remembered,
  \<^verbatim>\<open>storeUserLocation('/auth/callback')\<close> overwrites it, and
  \<^verbatim>\<open>getStoredLocation()\<close> then returns the callback path, not the value stored before.
\<close>

theorem storeUserLocation_callback_overwrites:
  "getStoredLocation dashboard_world = Some ''/dashboard''
   \<and> getStoredLocation (storeUserLocation ''/auth/callback'' dashboard_world) = Some ''/auth/callback''"
  by (simp add: getStoredLocation_def storeUserLocation_def tell_def example_defs)

text \<open>
  Claim C3, amended. In a browser, \<^verbatim>\<open>storeUserLocation(p)\<close> followed by
  \<^verbatim>\<open>getStoredLocation()\<close> returns \<open>p\<close> for every path \<open>p\<close>, the callback path
  included. The callback path is kept out by the two callers: \<^verbatim>\<open>signInWithGoogle\<close> and
  the navigation effect store the current path unless it is the callback path, and then
  leave the remembered value as it was.
\<close>

theorem storeUserLocation_then_get:
  assumes "window_defined w"
  shows "getStoredLocation (storeUserLocation p w) = Some p
    \<and> getStoredLocation (fst (signInWithGoogle sb (w\<lparr>pathname := p\<rparr>))) =
           (if p = ''/auth/callback'' then getStoredLocation w else Some p)
    \<and> getStoredLocation (fst (track_navigation r (w\<lparr>pathname := p\<rparr>))) =
           (if user r \<noteq> None \<and> isInitialized r \<and> p \<noteq> ''/auth/callback'' then Some p
            else getStoredLocation w)"
  using assms
  by (auto simp add: getStoredLocation_def storeUserLocation_def signInWithGoogle_def
      track_navigation_def stmt_defs tell_def split: awaited.splits option.splits)

theorem storeUserLocation_then_get_witness:
  "window_defined dashboard_world
   \<and> getStoredLocation (storeUserLocation ''/auth/callback'' dashboard_world) = Some ''/auth/callback''
   \<and> getStoredLocation (fst (signInWithGoogle signed_out (dashboard_world\<lparr>pathname := ''/auth/callback''\<rparr>)))
       = Some ''/dashboard''
   \<and> getStoredLocation (fst (track_navigation (render dashboard_world) (dashboard_world\<lparr>pathname := ''/auth/callback''\<rparr>)))
       = Some ''/dashboard''"
proof -
  have h: "window_defined dashboard_world" by (simp add: example_defs)
  show ?thesis
    using h storeUserLocation_then_get [OF h, of "''/auth/callback''" signed_out "render dashboard_world"]
    by (simp add: example_defs getStoredLocation_def)
qed

section \<open>Profile resolver\<close>

lemma createUserProfile_Resolved:
  "insert_single sb (new_profile_row r userId) = Resolved res \<Longrightarrow>
   createUserProfile r sb userId w =
     (case error res of
        Some e \<Rightarrow> (w\<lparr>trace := trace w @ [InsertProfile (new_profile_row r userId),
                       ConsoleError ''Error creating user profile:'']\<rparr>, None)
      | None \<Rightarrow> (w\<lparr>userProfile := data res,
                    trace := trace w @ [InsertProfile (new_profile_row r userId),
                       SetUserProfile (data res)]\<rparr>, None))"
  by (simp add: createUserProfile_def stmt_defs setter_defs split: option.splits)

lemma createUserProfile_Rejected:
  "insert_single sb (new_profile_row r userId) = Rejected t \<Longrightarrow>
   createUserProfile r sb userId w =
     (w\<lparr>trace := trace w @ [InsertProfile (new_profile_row r userId),
         ConsoleError ''Error in createUserProfile:'']\<rparr>, None)"
  by (simp add: createUserProfile_def stmt_defs setter_defs)

lemma createUserProfile_inserts:
  "inserts (trace (fst (createUserProfile r sb userId w))) =
     inserts (trace w) @ [new_profile_row r userId]"
  by (cases "insert_single sb (new_profile_row r userId)")
     (simp_all add: createUserProfile_Resolved createUserProfile_Rejected inserts_append
        split: option.splits)

lemma createUserProfile_no_throw: "snd (createUserProfile r sb userId w) = None"
  by (cases "insert_single sb (new_profile_row r userId)")
     (simp_all add: createUserProfile_Resolved createUserProfile_Rejected split: option.splits)

lemma fetchUserProfile_Resolved:
  "select_single sb userId = Resolved res \<Longrightarrow>
   fetchUserProfile r sb userId w =
     (if (case error res of None \<Rightarrow> False | Some e \<Rightarrow> code e \<noteq> ''PGRST116'')
      then (w\<lparr>trace := trace w @ [SelectProfile userId,
               ConsoleError ''Error fetching user profile:'']\<rparr>, None)
      else (case data res of
              Some row \<Rightarrow> (w\<lparr>userProfile := Some row,
                 trace := trace w @ [SelectProfile userId, SetUserProfile (Some row)]\<rparr>, None)
            | None \<Rightarrow> createUserProfile r sb userId (tell (SelectProfile userId) w)))"
  unfolding fetchUserProfile_def
  by (rule trans [OF try_catch_no_throw])
     (simp_all add: request_def createUserProfile_no_throw console_error_def sync_def
        setter_defs split: option.splits)

lemma fetchUserProfile_no_rows:
  "select_single sb userId = Resolved \<lparr>data = None, error = Some e\<rparr> \<Longrightarrow> code e = ''PGRST116'' \<Longrightarrow>
   fetchUserProfile r sb userId w = createUserProfile r sb userId (tell (SelectProfile userId) w)"
  by (simp add: fetchUserProfile_Resolved)

lemma fetchUserProfile_found:
  "select_single sb userId = Resolved \<lparr>data = Some row, error = None\<rparr> \<Longrightarrow>
   fetchUserProfile r sb userId w =
     (w\<lparr>userProfile := Some row,
        trace := trace w @ [SelectProfile userId, SetUserProfile (Some row)]\<rparr>, None)"
  by (simp add: fetchUserProfile_Resolved)

lemma fetchUserProfile_failed:
  "select_single sb userId = Resolved res \<Longrightarrow> error res = Some e \<Longrightarrow> code e \<noteq> ''PGRST116'' \<Longrightarrow>
   fetchUserProfile r sb userId w =
     (w\<lparr>trace := trace w @ [SelectProfile userId,
         ConsoleError ''Error fetching user profile:'']\<rparr>, None)"
  by (simp add: fetchUserProfile_Resolved)

lemma fetchUserProfile_Rejected:
  "select_single sb userId = Rejected t \<Longrightarrow>
   fetchUserProfile r sb userId w =
     (w\<lparr>trace := trace w @ [SelectProfile userId,
         ConsoleError ''Error in fetchUserProfile:'']\<rparr>, None)"
  by (simp add: fetchUserProfile_def stmt_defs setter_defs)

lemma fetchUserProfile_no_throw: "snd (fetchUserProfile r sb userId w) = None"
  unfolding fetchUserProfile_def
  by (rule try_catch_snd) (simp add: console_error_def sync_def)

text \<open>
  On the ``no rows'' answer (error code \<^verbatim>\<open>PGRST116\<close>, no data) the resolver issues
  exactly one insert request, for the row built from the \<^verbatim>\<open>user\<close> of the render it
  belongs to; when the insert answers without an error, what it returns is stored.
\<close>

lemma fetchUserProfile_no_rows_insert:
  assumes "select_single sb userId = Resolved \<lparr>data = None, error = Some e\<rparr>"
    and "code e = ''PGRST116''"
  shows "inserts (trace (fst (fetchUserProfile r sb userId w))) =
           inserts (trace w) @ [new_profile_row r userId]
    \<and> (insert_single sb (new_profile_row r userId) = Resolved \<lparr>data = row, error = None\<rparr> \<longrightarrow>
           userProfile (fst (fetchUserProfile r sb userId w)) = row)
    \<and> snd (fetchUserProfile r sb userId w) = None"
proof -
  note eq = fetchUserProfile_no_rows [OF assms, of r w]
  have "inserts (trace (fst (fetchUserProfile r sb userId w))) =
           inserts (trace w) @ [new_profile_row r userId]"
    by (simp add: eq createUserProfile_inserts tell_def inserts_append)
  moreover have "snd (fetchUserProfile r sb userId w) = None"
    by (simp add: fetchUserProfile_no_throw)
  moreover have "insert_single sb (new_profile_row r userId) = Resolved \<lparr>data = row, error = None\<rparr> \<longrightarrow>
           userProfile (fst (fetchUserProfile r sb userId w)) = row"
    by (simp add: eq createUserProfile_Resolved)
  ultimately show ?thesis
    by simp
qed

text \<open>
  Claim C5. When the query finds the row, resolving the profile stores it and issues no
  insert: the only request is the select. Resolving a second time issues no insert either
  and leaves the same row stored.
\<close>

theorem fetchUserProfile_existing_row:
  assumes "select_single sb userId = Resolved \<lparr>data = Some row, error = None\<rparr>"
  shows "fetchUserProfile r sb userId w =
           (w\<lparr>userProfile := Some row,
              trace := trace w @ [SelectProfile userId, SetUserProfile (Some row)]\<rparr>, None)
    \<and> inserts (trace (fst (fetchUserProfile r sb userId w))) = inserts (trace w)
    \<and> userProfile (fst (fetchUserProfile r sb userId w)) = Some row
    \<and> inserts (trace (fst (fetchUserProfile r sb userId (fst (fetchUserProfile r sb userId w)))))
        = inserts (trace w)
    \<and> userProfile (fst (fetchUserProfile r sb userId (fst (fetchUserProfile r sb userId w))))
        = Some row"
  by (simp add: fetchUserProfile_found [OF assms] inserts_append)

theorem fetchUserProfile_existing_row_witness:
  "select_single returning_visit ''u1'' = Resolved \<lparr>data = Some alice_profile, error = None\<rparr>
   \<and> inserts (trace (fst (fetchUserProfile (render initial_world) returning_visit ''u1'' initial_world))) = []
   \<and> userProfile (fst (fetchUserProfile (render initial_world) returning_visit ''u1'' initial_world)) =
       Some alice_profile"
proof -
  have h: "select_single returning_visit ''u1'' = Resolved \<lparr>data = Some alice_profile, error = None\<rparr>"
    by (simp add: example_defs)
  show ?thesis
    using h fetchUserProfile_existing_row [OF h, of "render initial_world" initial_world]
    by (simp add: initial_world_def)
qed

text \<open>
  Claim C9, as stated, where a profile is already in the store: Alice's profile is
  stored and the query for her row fails with a permission error. The resolver writes
  nothing, so her profile is still stored afterwards: the stored profile is not unset.
\<close>

theorem fetchUserProfile_failure_keeps_profile:
  "select_single table_denied ''u1'' =
      Resolved \<lparr>data = None, error = Some (PostgrestError ''42501'' ''permission denied'')\<rparr>
   \<and> userProfile dashboard_world = Some alice_profile
   \<and> userProfile (fst (fetchUserProfile (render dashboard_world) table_denied ''u1''
        dashboard_world)) = Some alice_profile
   \<and> userProfile (fst (restoreSession (render dashboard_world) table_denied dashboard_world)) =
        Some alice_profile"
  by (simp add: restoreSession_def fetchUserProfile_def stmt_defs setter_defs example_defs)

text \<open>
  Claim C9, amended. When the query fails otherwise (it rejects, or it answers with an
  error whose code is not \<^verbatim>\<open>PGRST116\<close>), the resolver issues the select, logs one error
  and stops: no insert, the stored profile is left as it was (unset when it was unset,
  still set when it was set), the stored session and identity are as before, and nothing
  is thrown.
\<close>

theorem fetchUserProfile_other_failure:
  assumes "select_single sb userId = Rejected t
     \<or> (select_single sb userId = Resolved res \<and> error res = Some e \<and> code e \<noteq> ''PGRST116'')"
  shows "(\<exists>msg. trace (fst (fetchUserProfile r sb userId w)) =
            trace w @ [SelectProfile userId, ConsoleError msg])
    \<and> inserts (trace (fst (fetchUserProfile r sb userId w))) = inserts (trace w)
    \<and> userProfile (fst (fetchUserProfile r sb userId w)) = userProfile w
    \<and> session (fst (fetchUserProfile r sb userId w)) = session w
    \<and> user (fst (fetchUserProfile r sb userId w)) = user w
    \<and> snd (fetchUserProfile r sb userId w) = None"
  using assms
  by (auto simp add: fetchUserProfile_failed fetchUserProfile_Rejected inserts_append)

theorem fetchUserProfile_other_failure_witness:
  "select_single table_denied ''u1'' =
      Resolved \<lparr>data = None, error = Some (PostgrestError ''42501'' ''permission denied'')\<rparr>
   \<and> code (PostgrestError ''42501'' ''permission denied'') \<noteq> ''PGRST116''
   \<and> trace (fst (fetchUserProfile (render dashboard_world) table_denied ''u1'' dashboard_world)) =
       [SelectProfile ''u1'', ConsoleError ''Error fetching user profile:'']
   \<and> userProfile (fst (fetchUserProfile (render dashboard_world) table_denied ''u1'' dashboard_world)) =
       userProfile dashboard_world
   \<and> session (fst (fetchUserProfile (render dashboard_world) table_denied ''u1'' dashboard_world)) =
       Some alice_session
   \<and> userProfile (fst (fetchUserProfile (render initial_world) table_denied ''u1'' initial_world)) = None
   \<and> snd (fetchUserProfile (render dashboard_world) table_denied ''u1'' dashboard_world) = None"
proof -
  have h0: "select_single table_denied ''u1'' =
      Resolved \<lparr>data = None, error = Some (PostgrestError ''42501'' ''permission denied'')\<rparr>"
    by (simp add: example_defs)
  have h: "select_single table_denied ''u1'' = Rejected Thrown_Other
     \<or> (select_single table_denied ''u1'' =
          Resolved \<lparr>data = None, error = Some (PostgrestError ''42501'' ''permission denied'')\<rparr>
        \<and> error \<lparr>data = None :: UserProfile option, error = Some (PostgrestError ''42501'' ''permission denied'')\<rparr>
            = Some (PostgrestError ''42501'' ''permission denied'')
        \<and> code (PostgrestError ''42501'' ''permission denied'') \<noteq> ''PGRST116'')"
    using h0 by simp
  have d: "trace dashboard_world = []" "session dashboard_world = Some alice_session"
    by (simp_all add: dashboard_world_def initial_world_def)
  have t: "trace (fst (fetchUserProfile (render dashboard_world) table_denied ''u1'' dashboard_world)) =
       [SelectProfile ''u1'', ConsoleError ''Error fetching user profile:'']"
    using d by (simp add: fetchUserProfile_failed [OF h0])
  from fetchUserProfile_other_failure [OF h, of "render dashboard_world" dashboard_world]
    fetchUserProfile_other_failure [OF h, of "render initial_world" initial_world]
  have "userProfile (fst (fetchUserProfile (render dashboard_world) table_denied ''u1'' dashboard_world)) =
       userProfile dashboard_world
   \<and> session (fst (fetchUserProfile (render dashboard_world) table_denied ''u1'' dashboard_world)) =
       Some alice_session
   \<and> userProfile (fst (fetchUserProfile (render initial_world) table_denied ''u1'' initial_world)) = None
   \<and> snd (fetchUserProfile (render dashboard_world) table_denied ''u1'' dashboard_world) = None"
    by (simp add: d initial_world_fields)
  with h0 t show ?thesis by simp
qed



text \<open>What the resolver stores depends on the profile held before, not on the rest of
  the world it starts in.\<close>

lemma createUserProfile_userProfile:
  "userProfile w1 = userProfile w2 \<Longrightarrow>
   userProfile (fst (createUserProfile r sb userId w1)) =
   userProfile (fst (createUserProfile r sb userId w2))"
  by (cases "insert_single sb (new_profile_row r userId)")
     (simp_all add: createUserProfile_Resolved createUserProfile_Rejected split: option.splits)

lemma fetchUserProfile_userProfile:
  "userProfile w1 = userProfile w2 \<Longrightarrow>
   userProfile (fst (fetchUserProfile r sb userId w1)) =
   userProfile (fst (fetchUserProfile r sb userId w2))"
  by (cases "select_single sb userId")
     (auto simp add: fetchUserProfile_Resolved fetchUserProfile_Rejected tell_def
        split: option.splits intro!: createUserProfile_userProfile)

section \<open>Bootstrap\<close>

lemma getInitialSession_error:
  "auth_getSession sb = Resolved res \<Longrightarrow> error res = Some e \<Longrightarrow>
   getInitialSession r sb w =
     (w\<lparr>loading := False, isInitialized := True, sessionError := Some (message e),
        trace := trace w @ [SetLoading True, SetSessionError None,
          ConsoleLog ''Initializing session...'', GetSession,
          ConsoleError ''Error getting session:'', SetSessionError (Some (message e)),
          SetLoading False, SetIsInitialized True,
          ConsoleLog ''Session initialization complete'']\<rparr>, None)"
  by (simp add: getInitialSession_def stmt_defs setter_defs)

lemma getInitialSession_Rejected:
  "auth_getSession sb = Rejected t \<Longrightarrow>
   getInitialSession r sb w =
     (w\<lparr>loading := False, isInitialized := True, sessionError := Some (message_or_unknown t),
        trace := trace w @ [SetLoading True, SetSessionError None,
          ConsoleLog ''Initializing session...'', GetSession,
          ConsoleError ''Error in getInitialSession:'',
          SetSessionError (Some (message_or_unknown t)),
          SetLoading False, SetIsInitialized True,
          ConsoleLog ''Session initialization complete'']\<rparr>, None)"
  by (simp add: getInitialSession_def stmt_defs setter_defs)


text \<open>
  Claim C7. When the session fetch of the bootstrap fails (the request rejects, or it
  answers with an error), the error message is recorded, session and identity are left
  as they were (unset, when the bootstrap starts from the mounted state), loading ends
  false and initialized true, and nothing is thrown.
\<close>

theorem getInitialSession_failure:
  assumes "auth_getSession sb = Rejected t
     \<or> (auth_getSession sb = Resolved res \<and> error res = Some e)"
  shows "sessionError (fst (getInitialSession r sb w)) =
           Some (case auth_getSession sb of Rejected t' \<Rightarrow> message_or_unknown t'
                 | Resolved res' \<Rightarrow> message e)
    \<and> session (fst (getInitialSession r sb w)) = session w
    \<and> user (fst (getInitialSession r sb w)) = user w
    \<and> loading (fst (getInitialSession r sb w)) = False
    \<and> isInitialized (fst (getInitialSession r sb w)) = True
    \<and> snd (getInitialSession r sb w) = None
    \<and> session (bootstrap sb initial_world) = None
    \<and> user (bootstrap sb initial_world) = None"
  using assms
  by (auto simp add: getInitialSession_error getInitialSession_Rejected bootstrap_def
      initial_world_fields)

theorem getInitialSession_failure_witness:
  "auth_getSession offline = Rejected (Thrown_Error ''Failed to fetch'')
   \<and> sessionError (bootstrap offline initial_world) = Some ''Failed to fetch''
   \<and> session (bootstrap offline initial_world) = None
   \<and> user (bootstrap offline initial_world) = None
   \<and> loading (bootstrap offline initial_world) = False
   \<and> isInitialized (bootstrap offline initial_world) = True"
proof -
  have h: "auth_getSession offline = Rejected (Thrown_Error ''Failed to fetch'')"
    by (simp add: offline_def)
  have "sessionError (fst (getInitialSession (render initial_world) offline initial_world)) =
           Some (case auth_getSession offline of Rejected t' \<Rightarrow> message_or_unknown t'
                 | Resolved res' \<Rightarrow> message (AuthError []))
    \<and> session (fst (getInitialSession (render initial_world) offline initial_world)) = session initial_world
    \<and> user (fst (getInitialSession (render initial_world) offline initial_world)) = user initial_world
    \<and> loading (fst (getInitialSession (render initial_world) offline initial_world)) = False
    \<and> isInitialized (fst (getInitialSession (render initial_world) offline initial_world)) = True
    \<and> snd (getInitialSession (render initial_world) offline initial_world) = None
    \<and> session (bootstrap offline initial_world) = None
    \<and> user (bootstrap offline initial_world) = None"
    by (rule getInitialSession_failure) (simp add: h)
  then show ?thesis
    by (simp add: h bootstrap_def initial_world_fields)
qed

section \<open>Sign out\<close>

text \<open>
  Claim C8. \<^verbatim>\<open>signOut\<close> first sets loading true, then requests the external sign-out.
  Whatever the answer (success, an error reported by the service, a rejection), it ends
  with loading set false and the remembered location removed, in that order and after
  everything else; a reported error or a rejection is what the caller then receives as
  the thrown value, and a success throws nothing.
\<close>

theorem signOut_cleanup_and_rethrow:
  "loading (fst (signOut sb w)) = False
   \<and> getStoredLocation (fst (signOut sb w)) = None
   \<and> snd (signOut sb w) =
       (case auth_signOut sb of
          Rejected t \<Rightarrow> Some t
        | Resolved res \<Rightarrow> map_option Thrown_AuthError (error res))
   \<and> (\<exists>logged. trace (fst (signOut sb w)) =
         trace w @ [SetLoading True, SignOutRequest] @ map ConsoleError logged
           @ SetLoading False # (if window_defined w then [RemoveItem ''lastUserLocation''] else []))"
proof (cases "auth_signOut sb")
  case (Resolved res)
  show ?thesis
  proof (cases "error res")
    case None
    have "signOut sb w =
        (clearStoredLocation (setLoading False (tell SignOutRequest (setLoading True w))), None)"
      using Resolved None by (simp add: signOut_def stmt_defs)
    then show ?thesis using Resolved None
      by (simp add: setter_defs clearStoredLocation_def getStoredLocation_def
          exI [of _ "[]"])
  next
    case (Some e)
    have "signOut sb w = (clearStoredLocation (setLoading False
        (tell (ConsoleError ''Error in signOut:'') (tell (ConsoleError ''Error signing out:'')
          (tell SignOutRequest (setLoading True w))))), Some (Thrown_AuthError e))"
      using Resolved Some by (simp add: signOut_def stmt_defs)
    then show ?thesis using Resolved Some
      by (simp add: setter_defs clearStoredLocation_def getStoredLocation_def
          exI [of _ "[''Error signing out:'', ''Error in signOut:'']"])
  qed
next
  case (Rejected t)
  have "signOut sb w = (clearStoredLocation (setLoading False
        (tell (ConsoleError ''Error in signOut:'')
          (tell SignOutRequest (setLoading True w)))), Some t)"
    using Rejected by (simp add: signOut_def stmt_defs)
  then show ?thesis using Rejected
    by (simp add: setter_defs clearStoredLocation_def getStoredLocation_def
        exI [of _ "[''Error in signOut:'']"])
qed

section \<open>Restoring the session\<close>







section \<open>The listener and the loading flag\<close>

lemma loading_clearStoredLocation: "loading (clearStoredLocation w) = loading w"
  by (simp add: clearStoredLocation_def tell_def)

lemma onAuthStateChange_loading:
  "loading r \<Longrightarrow> preserves loading (onAuthStateChange r sb event sess)"
  unfolding onAuthStateChange_def fetchUserProfile_def createUserProfile_def
  by (auto intro!: preserves_intros
      simp add: setter_defs loading_clearStoredLocation split: option.splits)

text \<open>
  Claim C2, on the code: the listener created at mount sees \<^verbatim>\<open>loading\<close> true, and its
  last statement is \<^verbatim>\<open>if (!loading) setLoading(false)\<close>. An event delivered while
  loading is true (the initial event with no session, or a sign-in with a session)
  leaves loading true.
\<close>

theorem onAuthStateChange_leaves_loading_true:
  "loading initial_world = True
   \<and> loading (fst (onAuthStateChange (render initial_world) signed_out ''INITIAL_SESSION'' None
        initial_world)) = True
   \<and> loading (fst (onAuthStateChange (render initial_world) returning_visit ''SIGNED_IN''
        (Some alice_session) initial_world)) = True"
proof -
  have "loading (render initial_world)"
    by (simp add: render_def initial_world_fields)
  then show ?thesis
    by (simp add: preservesD [OF onAuthStateChange_loading] initial_world_fields)
qed

section \<open>The identity a new profile is created from\<close>

text \<open>
  Claim C4, on the code. \<^verbatim>\<open>createUserProfile\<close> reads \<^verbatim>\<open>user?.email\<close> and
  \<^verbatim>\<open>user?.user_metadata\<close> from the \<^verbatim>\<open>user\<close> state of the render it belongs to, not
  from the identity whose profile is being resolved. Alice has an email and a name and no
  profile row. At the bootstrap, and when the listener receives her sign-in, the resolver
  belongs to the first render, whose \<^verbatim>\<open>user\<close> is null: the one row inserted (and
  stored) has an empty email and no name. When \<^verbatim>\<open>restoreSession\<close> is called with
  Alice in the store and the service answers with Bob's session, the row inserted for
  Bob carries Alice's email and name.
\<close>

theorem createUserProfile_ignores_session_identity:
  "user_email alice = Some ''alice@example.com''
   \<and> meta_full_name (user_metadata alice) = Some ''Alice''
   \<and> inserts (trace (bootstrap first_visit initial_world)) =
       [\<lparr>profile_id = ''u1'', email = [], full_name = None, avatar_url = None,
         subscription_status = ''free''\<rparr>]
   \<and> user (bootstrap first_visit initial_world) = Some alice
   \<and> userProfile (bootstrap first_visit initial_world) =
       Some \<lparr>profile_id = ''u1'', email = [], full_name = None, avatar_url = None,
             subscription_status = ''free''\<rparr>
   \<and> inserts (trace (step (first_visit, AuthEvent ''SIGNED_IN'' (Some alice_session))
        initial_world)) =
       [\<lparr>profile_id = ''u1'', email = [], full_name = None, avatar_url = None,
         subscription_status = ''free''\<rparr>]
   \<and> inserts (trace (step (bob_first_visit, RestoreSession) dashboard_world)) =
       [\<lparr>profile_id = ''u2'', email = ''alice@example.com'', full_name = Some ''Alice'',
         avatar_url = None, subscription_status = ''free''\<rparr>]"
  by (simp add: bootstrap_def getInitialSession_def onAuthStateChange_def restoreSession_def
      fetchUserProfile_def createUserProfile_def new_profile_row_def or_null_def
      getStoredLocation_def stmt_defs setter_defs example_defs)

end
